theory Spec2Isabelle
  imports Complex_Main "HOL-Library.Multiset"
begin

section \<open>Python values\<close>

text \<open>
  The records handled by \<^verbatim>\<open>Data_Aggregator.py\<close> are whatever \<^verbatim>\<open>json.load\<close> returned:
  dictionaries whose values are arbitrary JSON values. Python's \<^verbatim>\<open>int\<close> and \<^verbatim>\<open>float\<close> are both
  \<open>JNum\<close>, with the value as an exact rational; arithmetic on them is exact here, so the
  rounding error of binary floating point (and the literals \<^verbatim>\<open>NaN\<close>, \<^verbatim>\<open>Infinity\<close>) is outside the
  model. A dictionary is an association list read with \<open>map_of\<close>.
\<close>

datatype json =
    JNull
  | JBool bool
  | JNum rat
  | JStr string
  | JArr "json list"
  | JObj "(string \<times> json) list"

datatype py_error = TypeError | AttributeError | ValueError

text \<open>\<^verbatim>\<open>r.get(k, dflt)\<close>: only a dictionary has the method.\<close>

definition dict_get :: "json \<Rightarrow> string \<Rightarrow> json \<Rightarrow> py_error + json" where
  "dict_get r k dflt =
     (case r of
        JObj d \<Rightarrow> Inr (case map_of d k of None \<Rightarrow> dflt | Some v \<Rightarrow> v)
      | _ \<Rightarrow> Inl AttributeError)"

text \<open>The number a Python value stands for in arithmetic and comparisons (\<^verbatim>\<open>bool\<close> is an \<^verbatim>\<open>int\<close>).\<close>

fun num_of :: "json \<Rightarrow> rat option" where
  "num_of (JNum x) = Some x"
| "num_of (JBool b) = Some (if b then 1 else 0)"
| "num_of _ = None"

text \<open>\<^verbatim>\<open>v > t\<close> and \<^verbatim>\<open>v <= t\<close> against a float: a \<^verbatim>\<open>TypeError\<close> unless \<open>v\<close> is a number.\<close>

definition py_gt :: "json \<Rightarrow> rat \<Rightarrow> py_error + bool" where
  "py_gt v t = (case num_of v of Some x \<Rightarrow> Inr (x > t) | None \<Rightarrow> Inl TypeError)"


text \<open>\<^verbatim>\<open>not v\<close>: the falsy values.\<close>

fun falsy :: "json \<Rightarrow> bool" where
  "falsy JNull = True"
| "falsy (JBool b) = (\<not> b)"
| "falsy (JNum x) = (x = 0)"
| "falsy (JStr s) = (s = [])"
| "falsy (JArr xs) = (xs = [])"
| "falsy (JObj d) = (d = [])"

text \<open>
  \<^verbatim>\<open>sum(xs)\<close> starts from \<open>0\<close> and adds from the left; the first element that is not a number
  raises \<^verbatim>\<open>TypeError\<close>.
\<close>

fun py_sum_from :: "rat \<Rightarrow> json list \<Rightarrow> py_error + rat" where
  "py_sum_from s [] = Inr s"
| "py_sum_from s (v # vs) =
     (case num_of v of None \<Rightarrow> Inl TypeError | Some x \<Rightarrow> py_sum_from (s + x) vs)"

definition py_sum :: "json list \<Rightarrow> py_error + rat" where
  "py_sum vs = py_sum_from 0 vs"

text \<open>\<^verbatim>\<open>round(x, n)\<close>: to the nearest multiple of \<open>10\<^sup>-\<^sup>n\<close>, a tie to the even one.\<close>

definition round_half_even :: "rat \<Rightarrow> int" where
  "round_half_even x =
     (let f = \<lfloor>x\<rfloor>; d = x - of_int f
      in if d < 1 / 2 then f else if 1 / 2 < d then f + 1 else if even f then f else f + 1)"

definition py_round :: "rat \<Rightarrow> nat \<Rightarrow> rat" where
  "py_round x n = of_int (round_half_even (x * 10 ^ n)) / 10 ^ n"

section \<open>\<^verbatim>\<open>Data_Aggregator.py\<close>\<close>

subsection \<open>\<^verbatim>\<open>get_anomalies\<close>\<close>

text \<open>The loop of \<^verbatim>\<open>get_anomalies\<close>: \<open>acc\<close> is the list \<^verbatim>\<open>anomalies\<close>.\<close>

fun anomalies_loop :: "json list \<Rightarrow> rat \<Rightarrow> json list \<Rightarrow> py_error + json list" where
  "anomalies_loop acc t [] = Inr acc"
| "anomalies_loop acc t (r # rs) =
     (case dict_get r ''defect_percentage'' (JNum 0) of
        Inl e \<Rightarrow> Inl e
      | Inr defect_pct \<Rightarrow>
          (case py_gt defect_pct t of
             Inl e \<Rightarrow> Inl e
           | Inr b \<Rightarrow> anomalies_loop (if b then acc @ [r] else acc) t rs))"

text \<open>The sort key \<^verbatim>\<open>x.get("defect_percentage", 0)\<close>, as a number when it is one.\<close>

definition pct_key :: "json \<Rightarrow> rat option" where
  "pct_key r =
     (case dict_get r ''defect_percentage'' (JNum 0) of Inl e \<Rightarrow> None | Inr v \<Rightarrow> num_of v)"

text \<open>
  \<^verbatim>\<open>xs.sort(key=..., reverse=True)\<close> with that key. Python's sort is stable, also under
  \<^verbatim>\<open>reverse=True\<close>: it is the stable sort on the negated key. Keys that are not numbers do not
  compare with numbers.
\<close>

definition sort_pct_desc :: "json list \<Rightarrow> py_error + json list" where
  "sort_pct_desc xs =
     (if list_all (\<lambda>r. pct_key r \<noteq> None) xs
      then Inr (sort_key (\<lambda>r. - the (pct_key r)) xs)
      else Inl TypeError)"

definition get_anomalies :: "json list \<Rightarrow> rat \<Rightarrow> py_error + json list" where
  "get_anomalies data threshold_percentage =
     (if data = [] then Inr []
      else (case anomalies_loop [] threshold_percentage data of
              Inl e \<Rightarrow> Inl e
            | Inr anomalies \<Rightarrow> sort_pct_desc anomalies))"

subsection \<open>Comprehensions and insertion-ordered dictionaries\<close>

text \<open>
  A comprehension evaluates its body for each element in order; the first exception ends it.
  With a condition, the body yields \<open>None\<close> for a skipped element.
\<close>

fun try_map :: "('a \<Rightarrow> py_error + 'b) \<Rightarrow> 'a list \<Rightarrow> py_error + 'b list" where
  "try_map f [] = Inr []"
| "try_map f (x # xs) =
     (case f x of
        Inl e \<Rightarrow> Inl e
      | Inr y \<Rightarrow> (case try_map f xs of Inl e \<Rightarrow> Inl e | Inr ys \<Rightarrow> Inr (y # ys)))"

text \<open>The elements a comprehension with a condition keeps.\<close>

fun kept :: "'a option list \<Rightarrow> 'a list" where
  "kept [] = []"
| "kept (None # xs) = kept xs"
| "kept (Some x # xs) = x # kept xs"

text \<open>
  \<^verbatim>\<open>d[k] = f(d[k])\<close> on a \<^verbatim>\<open>defaultdict\<close> with default \<open>dflt\<close>: a new key goes last, an old one
  keeps its place.
\<close>

fun dict_upd :: "'k \<Rightarrow> 'v \<Rightarrow> ('v \<Rightarrow> 'v) \<Rightarrow> ('k \<times> 'v) list \<Rightarrow> ('k \<times> 'v) list" where
  "dict_upd k dflt f [] = [(k, f dflt)]"
| "dict_upd k dflt f ((k', v) # kvs) =
     (if k' = k then (k', f v) # kvs else (k', v) # dict_upd k dflt f kvs)"

text \<open>
  A value used as a dictionary key must be hashable: lists and dictionaries are not. \<^verbatim>\<open>True\<close>
  and \<^verbatim>\<open>1\<close> (and \<^verbatim>\<open>False\<close> and \<^verbatim>\<open>0\<close>) are one key, so a Boolean key is kept as its number.
\<close>

fun hash_key :: "json \<Rightarrow> py_error + json" where
  "hash_key (JArr xs) = Inl TypeError"
| "hash_key (JObj d) = Inl TypeError"
| "hash_key (JBool b) = Inr (JNum (if b then 1 else 0))"
| "hash_key v = Inr v"

text \<open>\<^verbatim>\<open>sum(xs) / len(xs) if xs else 0\<close>\<close>

definition mean_or_zero :: "json list \<Rightarrow> py_error + rat" where
  "mean_or_zero xs =
     (if xs = [] then Inr 0
      else (case py_sum xs of Inl e \<Rightarrow> Inl e | Inr s \<Rightarrow> Inr (s / of_nat (length xs))))"

subsection \<open>\<^verbatim>\<open>get_summary_statistics\<close>\<close>

record stats =
  total_wafers :: int
  pass_count :: int
  fail_count :: int
  pass_rate :: rat
  fail_rate :: rat
  average_defect_percentage :: rat
  average_confidence :: rat

text \<open>The result is either the dictionary \<^verbatim>\<open>{"error": msg}\<close> or the statistics.\<close>

datatype summary = ErrorMarker string | Stats stats

text \<open>\<^verbatim>\<open>r.get("quality_status") == "PASS"\<close>\<close>

definition is_pass :: "json \<Rightarrow> py_error + bool" where
  "is_pass r =
     (case dict_get r ''quality_status'' JNull of Inl e \<Rightarrow> Inl e | Inr v \<Rightarrow> Inr (v = JStr ''PASS''))"

text \<open>\<^verbatim>\<open>r.get("prediction", {}).get(k, dflt)\<close>\<close>

definition prediction_get :: "json \<Rightarrow> string \<Rightarrow> json \<Rightarrow> py_error + json" where
  "prediction_get r k dflt =
     (case dict_get r ''prediction'' (JObj []) of Inl e \<Rightarrow> Inl e | Inr p \<Rightarrow> dict_get p k dflt)"

text \<open>
  One element of \<^verbatim>\<open>[r.get("defect_percentage", 0) for r in self.data if
  r.get("defect_percentage") is not None]\<close>, and of the comprehension for the confidences.
\<close>

definition pct_entry :: "json \<Rightarrow> py_error + json option" where
  "pct_entry r =
     (case dict_get r ''defect_percentage'' JNull of
        Inl e \<Rightarrow> Inl e
      | Inr c \<Rightarrow>
          if c = JNull then Inr None
          else (case dict_get r ''defect_percentage'' (JNum 0) of
                  Inl e \<Rightarrow> Inl e
                | Inr v \<Rightarrow> Inr (Some v)))"

definition conf_entry :: "json \<Rightarrow> py_error + json option" where
  "conf_entry r =
     (case prediction_get r ''Confidence Score'' JNull of
        Inl e \<Rightarrow> Inl e
      | Inr c \<Rightarrow>
          if c = JNull then Inr None
          else (case prediction_get r ''Confidence Score'' (JNum 0) of
                  Inl e \<Rightarrow> Inl e
                | Inr v \<Rightarrow> Inr (Some v)))"

definition get_summary_statistics :: "json list \<Rightarrow> py_error + summary" where
  "get_summary_statistics rs =
     (if rs = [] then Inr (ErrorMarker ''No data loaded'')
      else
        (case try_map is_pass rs of
           Inl e \<Rightarrow> Inl e
         | Inr passes \<Rightarrow>
        (case try_map pct_entry rs of
           Inl e \<Rightarrow> Inl e
         | Inr pcts \<Rightarrow>
        (case mean_or_zero (kept pcts) of
           Inl e \<Rightarrow> Inl e
         | Inr avg_defect_percentage \<Rightarrow>
        (case try_map conf_entry rs of
           Inl e \<Rightarrow> Inl e
         | Inr confs \<Rightarrow>
        (case mean_or_zero (kept confs) of
           Inl e \<Rightarrow> Inl e
         | Inr avg_confidence \<Rightarrow>
             (let total = int (length rs);
                  npass = int (length (filter id passes));
                  nfail = total - npass
              in Inr (Stats \<lparr>
                   total_wafers = total,
                   pass_count = npass,
                   fail_count = nfail,
                   pass_rate = (if total > 0 then of_int npass / of_int total * 100 else 0),
                   fail_rate = (if total > 0 then of_int nfail / of_int total * 100 else 0),
                   average_defect_percentage = py_round avg_defect_percentage 2,
                   average_confidence = py_round avg_confidence 4 \<rparr>))))))))"

subsection \<open>\<^verbatim>\<open>get_machine_statistics\<close>\<close>

text \<open>
  \<^verbatim>\<open>f"{machine_type}_{machine_id}"\<close>: a string is inserted as it is; the text of any other value
  is Python's \<^verbatim>\<open>str\<close>, the parameter \<open>str_of\<close>.
\<close>

definition fmt :: "(json \<Rightarrow> string) \<Rightarrow> json \<Rightarrow> string" where
  "fmt str_of v = (case v of JStr s \<Rightarrow> s | _ \<Rightarrow> str_of v)"

record machine_acc =
  acc_total :: int
  acc_pass :: int
  acc_fail :: int
  acc_defect_percentages :: "json list"
  acc_defect_classes :: "(json \<times> int) list"

definition machine_acc0 :: machine_acc where
  "machine_acc0 =
     \<lparr> acc_total = 0, acc_pass = 0, acc_fail = 0, acc_defect_percentages = [],
       acc_defect_classes = [] \<rparr>"

definition machine_key :: "(json \<Rightarrow> string) \<Rightarrow> json \<Rightarrow> py_error + string" where
  "machine_key str_of r =
     (case dict_get r ''machine_id'' (JStr ''Unknown'') of
        Inl e \<Rightarrow> Inl e
      | Inr mid \<Rightarrow>
     (case dict_get r ''machine_type'' (JStr ''Unknown'') of
        Inl e \<Rightarrow> Inl e
      | Inr mtype \<Rightarrow> Inr (fmt str_of mtype @ ''_'' @ fmt str_of mid)))"

text \<open>The body of the loop over \<^verbatim>\<open>self.data\<close>.\<close>

definition machine_step ::
  "(json \<Rightarrow> string) \<Rightarrow> (string \<times> machine_acc) list \<Rightarrow> json
     \<Rightarrow> py_error + (string \<times> machine_acc) list" where
  "machine_step str_of ms r =
     (case machine_key str_of r of
        Inl e \<Rightarrow> Inl e
      | Inr k \<Rightarrow>
     (case is_pass r of
        Inl e \<Rightarrow> Inl e
      | Inr p \<Rightarrow>
     (case dict_get r ''defect_percentage'' JNull of
        Inl e \<Rightarrow> Inl e
      | Inr defect_pct \<Rightarrow>
     (case prediction_get r ''Defect Class'' (JStr ''Unknown'') of
        Inl e \<Rightarrow> Inl e
      | Inr defect_class \<Rightarrow>
     (case hash_key defect_class of
        Inl e \<Rightarrow> Inl e
      | Inr ck \<Rightarrow>
          Inr (dict_upd k machine_acc0
                 (\<lambda>a. a\<lparr> acc_total := acc_total a + 1,
                          acc_pass := (if p then acc_pass a + 1 else acc_pass a),
                          acc_fail := (if p then acc_fail a else acc_fail a + 1),
                          acc_defect_percentages :=
                            (if defect_pct \<noteq> JNull then acc_defect_percentages a @ [defect_pct]
                             else acc_defect_percentages a),
                          acc_defect_classes :=
                            dict_upd ck 0 (\<lambda>n. n + 1) (acc_defect_classes a) \<rparr>)
                 ms))))))"

fun machine_loop ::
  "(json \<Rightarrow> string) \<Rightarrow> (string \<times> machine_acc) list \<Rightarrow> json list
     \<Rightarrow> py_error + (string \<times> machine_acc) list" where
  "machine_loop str_of ms [] = Inr ms"
| "machine_loop str_of ms (r # rs) =
     (case machine_step str_of ms r of
        Inl e \<Rightarrow> Inl e
      | Inr ms' \<Rightarrow> machine_loop str_of ms' rs)"

record machine_stats =
  ms_machine_id :: string
  ms_total_wafers :: int
  ms_pass_count :: int
  ms_fail_count :: int
  ms_pass_rate :: rat
  ms_average_defect_percentage :: rat
  ms_defect_class_distribution :: "(json \<times> int) list"

definition format_machine :: "string \<times> machine_acc \<Rightarrow> py_error + string \<times> machine_stats" where
  "format_machine kv =
     (case kv of (k, a) \<Rightarrow>
        (case (if acc_defect_percentages a = [] then Inr 0
               else (case py_sum (acc_defect_percentages a) of
                       Inl e \<Rightarrow> Inl e
                     | Inr s \<Rightarrow>
                         Inr (py_round (s / of_nat (length (acc_defect_percentages a))) 2))) of
           Inl e \<Rightarrow> Inl e
         | Inr avg \<Rightarrow>
             Inr (k, \<lparr> ms_machine_id = k,
                       ms_total_wafers = acc_total a,
                       ms_pass_count = acc_pass a,
                       ms_fail_count = acc_fail a,
                       ms_pass_rate =
                         (if acc_total a > 0
                          then py_round (of_int (acc_pass a) / of_int (acc_total a) * 100) 2
                          else 0),
                       ms_average_defect_percentage = avg,
                       ms_defect_class_distribution = acc_defect_classes a \<rparr>)))"

definition get_machine_statistics ::
  "(json \<Rightarrow> string) \<Rightarrow> json list \<Rightarrow> py_error + (string \<times> machine_stats) list" where
  "get_machine_statistics str_of rs =
     (if rs = [] then Inr []
      else (case machine_loop str_of [] rs of
              Inl e \<Rightarrow> Inl e
            | Inr ms \<Rightarrow> try_map format_machine ms))"

subsection \<open>\<^verbatim>\<open>get_defect_distribution\<close>\<close>




subsection \<open>\<^verbatim>\<open>get_date_statistics\<close>\<close>

text \<open>\<^verbatim>\<open>DEFECT_PERCENTAGE_THRESHOLD\<close> of \<^verbatim>\<open>config_LLM.py\<close>.\<close>

definition DEFECT_PERCENTAGE_THRESHOLD :: rat where
  "DEFECT_PERCENTAGE_THRESHOLD = 40"

record date_acc =
  d_total_wafers :: int
  d_pass_count :: int
  d_fail_count :: int
  d_defect_percentages :: "json list"
  d_anomalies :: int

definition date_acc0 :: date_acc where
  "date_acc0 =
     \<lparr> d_total_wafers = 0, d_pass_count = 0, d_fail_count = 0, d_defect_percentages = [],
       d_anomalies = 0 \<rparr>"

text \<open>
  The body of the loop over \<^verbatim>\<open>self.data\<close>. The percentage is read with the default \<open>0\<close>, so
  only an explicit \<^verbatim>\<open>null\<close> is left out of the list, and the comparison with the threshold is
  made on whatever was read.
\<close>

definition date_step :: "(json \<times> date_acc) list \<Rightarrow> json \<Rightarrow> py_error + (json \<times> date_acc) list" where
  "date_step ds r =
     (case dict_get r ''simulation_date'' JNull of
        Inl e \<Rightarrow> Inl e
      | Inr sim_date \<Rightarrow>
          if falsy sim_date then Inr ds
          else
     (case hash_key sim_date of
        Inl e \<Rightarrow> Inl e
      | Inr k \<Rightarrow>
     (case is_pass r of
        Inl e \<Rightarrow> Inl e
      | Inr p \<Rightarrow>
     (case dict_get r ''defect_percentage'' (JNum 0) of
        Inl e \<Rightarrow> Inl e
      | Inr defect_pct \<Rightarrow>
     (case py_gt defect_pct DEFECT_PERCENTAGE_THRESHOLD of
        Inl e \<Rightarrow> Inl e
      | Inr exceeds \<Rightarrow>
          Inr (dict_upd k date_acc0
                 (\<lambda>a. a\<lparr> d_total_wafers := d_total_wafers a + 1,
                          d_pass_count := (if p then d_pass_count a + 1 else d_pass_count a),
                          d_fail_count := (if p then d_fail_count a else d_fail_count a + 1),
                          d_defect_percentages :=
                            (if defect_pct \<noteq> JNull then d_defect_percentages a @ [defect_pct]
                             else d_defect_percentages a),
                          d_anomalies := (if exceeds then d_anomalies a + 1 else d_anomalies a) \<rparr>)
                 ds))))))"

fun date_loop :: "(json \<times> date_acc) list \<Rightarrow> json list \<Rightarrow> py_error + (json \<times> date_acc) list" where
  "date_loop ds [] = Inr ds"
| "date_loop ds (r # rs) =
     (case date_step ds r of Inl e \<Rightarrow> Inl e | Inr ds' \<Rightarrow> date_loop ds' rs)"

record date_stats =
  ds_total_wafers :: int
  ds_pass_count :: int
  ds_fail_count :: int
  ds_pass_rate :: rat
  ds_avg_defect_percentage :: rat
  ds_anomalies :: int

definition format_date :: "json \<times> date_acc \<Rightarrow> py_error + json \<times> date_stats" where
  "format_date kv =
     (case kv of (k, a) \<Rightarrow>
        (case mean_or_zero (d_defect_percentages a) of
           Inl e \<Rightarrow> Inl e
         | Inr avg_defect \<Rightarrow>
             (let rate = (if d_total_wafers a > 0
                          then of_int (d_pass_count a) / of_int (d_total_wafers a) * 100
                          else 0)
              in Inr (k, \<lparr> ds_total_wafers = d_total_wafers a,
                           ds_pass_count = d_pass_count a,
                           ds_fail_count = d_fail_count a,
                           ds_pass_rate = py_round rate 2,
                           ds_avg_defect_percentage = py_round avg_defect 2,
                           ds_anomalies = d_anomalies a \<rparr>))))"

definition get_date_statistics :: "json list \<Rightarrow> py_error + (json \<times> date_stats) list" where
  "get_date_statistics rs =
     (if rs = [] then Inr []
      else (case date_loop [] rs of
              Inl e \<Rightarrow> Inl e
            | Inr ds \<Rightarrow> try_map format_date ds))"

subsection \<open>\<^verbatim>\<open>filter_by_simulation_date\<close> and \<^verbatim>\<open>get_daily_statistics\<close>\<close>

text \<open>One element of \<^verbatim>\<open>[r for r in self.data if r.get('simulation_date') == simulation_date]\<close>.\<close>

definition on_date :: "string \<Rightarrow> json \<Rightarrow> py_error + json option" where
  "on_date d r =
     (case dict_get r ''simulation_date'' JNull of
        Inl e \<Rightarrow> Inl e
      | Inr v \<Rightarrow> Inr (if v = JStr d then Some r else None))"

definition filter_by_simulation_date :: "json list \<Rightarrow> string \<Rightarrow> py_error + json list" where
  "filter_by_simulation_date rs d =
     (if rs = [] then Inr []
      else (case try_map (on_date d) rs of
              Inl e \<Rightarrow> Inl e
            | Inr keep \<Rightarrow> Inr (kept keep)))"

text \<open>
  The calls into pandas, as parameters: building a frame from the records, the test
  \<^verbatim>\<open>name in df.columns\<close>, the conversion \<^verbatim>\<open>df['timestamp'] = pd.to_datetime(df['timestamp'])\<close>, and
  the assignment of a column. Each of the three that compute may raise.
\<close>

record 'df pandas =
  DataFrame :: "json list \<Rightarrow> py_error + 'df"
  has_column :: "'df \<Rightarrow> string \<Rightarrow> bool"
  convert_timestamp :: "'df \<Rightarrow> py_error + 'df"
  set_column :: "'df \<Rightarrow> string \<Rightarrow> json list \<Rightarrow> py_error + 'df"

text \<open>The state of a \<^verbatim>\<open>DataAggregator\<close>: \<^verbatim>\<open>self.data\<close> and \<^verbatim>\<open>self.df\<close>.\<close>

record 'df aggregator =
  agg_data :: "json list"
  agg_df :: "'df option"

text \<open>
  \<^verbatim>\<open>get_daily_statistics\<close> builds a temporary aggregator over the filtered records, frame
  included, and asks it for the summary.
\<close>

definition get_daily_statistics ::
  "'df pandas \<Rightarrow> json list \<Rightarrow> string \<Rightarrow> py_error + summary" where
  "get_daily_statistics pd rs d =
     (case filter_by_simulation_date rs d of
        Inl e \<Rightarrow> Inl e
      | Inr daily_data \<Rightarrow>
          if daily_data = [] then Inr (ErrorMarker (''No data found for date '' @ d))
          else
            (case DataFrame pd daily_data of
               Inl e \<Rightarrow> Inl e
             | Inr frame \<Rightarrow>
                 (case (if has_column pd frame ''timestamp'' then convert_timestamp pd frame
                        else Inr frame) of
                    Inl e \<Rightarrow> Inl e
                  | Inr frame' \<Rightarrow> get_summary_statistics daily_data)))"

subsection \<open>\<^verbatim>\<open>load_results\<close>\<close>

text \<open>
  A file of the results directory: its name, its modification time, and what
  \<^verbatim>\<open>json.load\<close> makes of it (\<open>None\<close> when opening or parsing raises).
\<close>

record snapshot_file =
  file_name :: string
  st_mtime :: rat
  parsed :: "json option"

text \<open>The pattern \<^verbatim>\<open>results_*.json\<close>.\<close>

definition glob_match :: "string \<Rightarrow> bool" where
  "glob_match n =
     (length ''results_'' + length ''.json'' \<le> length n
      \<and> take (length ''results_'') n = ''results_''
      \<and> drop (length n - length ''.json'') n = ''.json'')"

text \<open>The loop over \<^verbatim>\<open>files_to_load\<close>; a file that cannot be read is skipped.\<close>

fun read_files :: "json list \<Rightarrow> snapshot_file list \<Rightarrow> json list" where
  "read_files all_results [] = all_results"
| "read_files all_results (f # fs) =
     (case parsed f of
        None \<Rightarrow> read_files all_results fs
      | Some (JArr results) \<Rightarrow> read_files (all_results @ results) fs
      | Some results \<Rightarrow> read_files (all_results @ [results]) fs)"

text \<open>
  \<^verbatim>\<open>load_results\<close>: \<open>dir\<close> is the listing of the results directory in the order \<^verbatim>\<open>glob\<close> yields
  it, \<open>file_path\<close> the file an explicit path leads to. The new state is returned with the
  result, since \<^verbatim>\<open>self.data\<close> is assigned before pandas is called.
\<close>

definition load_results ::
  "'df pandas \<Rightarrow> snapshot_file list \<Rightarrow> 'df aggregator \<Rightarrow> snapshot_file option
     \<Rightarrow> 'df aggregator \<times> (py_error + json list)" where
  "load_results pd dir s file_path =
     (let files_to_load =
            (case file_path of
               Some f \<Rightarrow> [f]
             | None \<Rightarrow> sort_key (\<lambda>f. - st_mtime f) (filter (\<lambda>f. glob_match (file_name f)) dir));
          all_results = read_files [] files_to_load;
          s1 = s\<lparr> agg_data := all_results \<rparr>
      in if all_results = [] then (s1, Inr all_results)
         else
           (case DataFrame pd all_results of
              Inl e \<Rightarrow> (s1, Inl e)
            | Inr frame \<Rightarrow>
                (case (if has_column pd frame ''timestamp'' then convert_timestamp pd frame
                       else Inr frame) of
                   Inl e \<Rightarrow> (s1\<lparr> agg_df := Some frame \<rparr>, Inl e)
                 | Inr frame1 \<Rightarrow>
                     if has_column pd frame1 ''simulation_date''
                     then (s1\<lparr> agg_df := Some frame1 \<rparr>, Inr all_results)
                     else
                       (case try_map (\<lambda>r. dict_get r ''simulation_date'' JNull) all_results of
                          Inl e \<Rightarrow> (s1\<lparr> agg_df := Some frame1 \<rparr>, Inl e)
                        | Inr sim_dates \<Rightarrow>
                            (case set_column pd frame1 ''simulation_date'' sim_dates of
                               Inl e \<Rightarrow> (s1\<lparr> agg_df := Some frame1 \<rparr>, Inl e)
                             | Inr frame2 \<Rightarrow> (s1\<lparr> agg_df := Some frame2 \<rparr>, Inr all_results))))))"

section \<open>\<^verbatim>\<open>Manufacturing_Simulation.py\<close>\<close>

subsection \<open>\<^verbatim>\<open>WaferImageGenerator\<close>\<close>

record WaferImageGenerator =
  normal_images :: "string list"
  defect_images :: "string list"
  output_dir :: string

text \<open>
  What one call of \<^verbatim>\<open>generate_image\<close> takes from outside the program: the draw of
  \<^verbatim>\<open>random.random()\<close>, the element \<^verbatim>\<open>random.choice\<close> picks, the clock, \<^verbatim>\<open>os.path.join\<close>, and
  whether \<^verbatim>\<open>shutil.copy2\<close> succeeds.
\<close>

record world =
  random_random :: rat
  random_choice :: "string list \<Rightarrow> string"
  strftime_now :: string
  isoformat_now :: string
  path_join :: "string \<Rightarrow> string \<Rightarrow> string"
  copy2_ok :: "string \<Rightarrow> string \<Rightarrow> bool"

definition generate_image ::
  "WaferImageGenerator \<Rightarrow> world \<Rightarrow> string \<Rightarrow> string \<Rightarrow> rat \<Rightarrow> string option" where
  "generate_image g w wafer_id mtype normal_probability =
     (if normal_images g = [] \<and> defect_images g = [] then None
      else
        (case (if random_random w < normal_probability
               then (if normal_images g \<noteq> [] then Some (random_choice w (normal_images g))
                     else if defect_images g \<noteq> [] then Some (random_choice w (defect_images g))
                     else None)
               else (if defect_images g \<noteq> [] then Some (random_choice w (defect_images g))
                     else if normal_images g \<noteq> [] then Some (random_choice w (normal_images g))
                     else None)) of
           None \<Rightarrow> None
         | Some source_image \<Rightarrow>
             (let filename = mtype @ ''_'' @ wafer_id @ ''_'' @ strftime_now w @ ''.jpg'';
                  output_path = path_join w (output_dir g) filename
              in if copy2_ok w source_image output_path then Some output_path else None)))"

subsection \<open>\<^verbatim>\<open>ManufacturingMachine\<close>\<close>

record ManufacturingMachine =
  machine_id :: string
  machine_type :: string
  image_generator :: WaferImageGenerator
  is_running :: bool
  processed_wafers :: int
  wafer_counter :: int
  min_interval :: rat
  max_interval :: rat

text \<open>The format \<^verbatim>\<open>{n:04d}\<close>: the decimal digits, filled with zeros to four characters.\<close>

fun digits :: "nat \<Rightarrow> string" where
  "digits n =
     (if n < 10 then [''0123456789'' ! n]
      else digits (n div 10) @ [''0123456789'' ! (n mod 10)])"

declare digits.simps [simp del]

definition zfill :: "nat \<Rightarrow> string \<Rightarrow> string" where
  "zfill width s = replicate (width - length s) (CHR ''0'') @ s"

definition format_04d :: "int \<Rightarrow> string" where
  "format_04d n =
     (if n < 0 then ''-'' @ zfill 3 (digits (nat (- n))) else zfill 4 (digits (nat n)))"

definition get_process_step :: "ManufacturingMachine \<Rightarrow> string" where
  "get_process_step m =
     (case map_of
        [(''Mechanical'', ''Mechanical Processing (Dicing, Grinding, Polishing)''),
         (''Electrical'', ''Electrical Testing (Probe Testing, Parametric Testing)''),
         (''Thermal'', ''Thermal Processing (Annealing, Stress Relief, Burn-in)'')]
        (machine_type m) of
        None \<Rightarrow> ''Unknown Process''
      | Some step \<Rightarrow> step)"

text \<open>
  \<^verbatim>\<open>process_wafer\<close> returns the wafer's dictionary, or \<open>None\<close>, together with the machine as the
  call leaves it. \<^verbatim>\<open>generate_image\<close> is called with its default \<^verbatim>\<open>normal_probability\<close> of 0.7.
\<close>

definition process_wafer ::
  "world \<Rightarrow> ManufacturingMachine \<Rightarrow> (string \<times> json) list option \<times> ManufacturingMachine" where
  "process_wafer w m =
     (if \<not> is_running m then (None, m)
      else
        (let m1 = m\<lparr> wafer_counter := wafer_counter m + 1 \<rparr>;
             wafer_id = machine_type m1 @ ''_'' @ machine_id m1 @ ''_W''
                          @ format_04d (wafer_counter m1)
         in case generate_image (image_generator m1) w wafer_id (machine_type m1) (7 / 10) of
              None \<Rightarrow> (None, m1)
            | Some image_path \<Rightarrow>
                (let m2 = m1\<lparr> processed_wafers := processed_wafers m1 + 1 \<rparr>
                 in (Some [(''wafer_id'', JStr wafer_id),
                           (''machine_id'', JStr (machine_id m2)),
                           (''machine_type'', JStr (machine_type m2)),
                           (''image_path'', JStr image_path),
                           (''timestamp'', JStr (isoformat_now w)),
                           (''process_step'', JStr (get_process_step m2))],
                     m2))))"

subsection \<open>\<^verbatim>\<open>process_wafer_with_analysis\<close>\<close>










subsection \<open>The worker threads of \<^verbatim>\<open>run_simulation\<close>\<close>

text \<open>
  Each machine has a thread running \<^verbatim>\<open>machine_worker\<close>. A thread is at the head of its
  \<^verbatim>\<open>while\<close> loop, or past the check of \<^verbatim>\<open>max_wafers\<close> (which it makes holding \<^verbatim>\<open>results_lock\<close>, and
  releases the lock before it processes the wafer), or it has left the loop.
\<close>

datatype worker_pc = AtLoopHead | PastCheck | Exited

text \<open>
  The shared list \<^verbatim>\<open>self.results\<close> (each record stands for the index of the machine that
  appended it) and where each thread is.
\<close>

record sim_state =
  results :: "nat list"
  workers :: "worker_pc list"

text \<open>
  What the scheduler and the environment decide. \<open>LoopHead i running\<close>: thread \<open>i\<close> evaluates
  \<^verbatim>\<open>self.is_running and time.time() < end_time\<close> to \<open>running\<close> and, when true, takes the lock
  and makes the check. \<open>Produce i made\<close>: thread \<open>i\<close>, past the check, finishes
  \<^verbatim>\<open>process_wafer\<close>; when a wafer was made it is analysed and \<^verbatim>\<open>save_result\<close> appends it under
  the lock; then the thread sleeps and returns to the head of the loop.
\<close>

datatype event = LoopHead nat bool | Produce nat bool

text \<open>\<^verbatim>\<open>max_wafers and len(self.results) >= max_wafers\<close>\<close>

definition cap_reached :: "int option \<Rightarrow> sim_state \<Rightarrow> bool" where
  "cap_reached max_wafers s =
     (case max_wafers of
        None \<Rightarrow> False
      | Some n \<Rightarrow> n \<noteq> 0 \<and> n \<le> int (length (results s)))"

fun worker_step :: "int option \<Rightarrow> sim_state \<Rightarrow> event \<Rightarrow> sim_state option" where
  "worker_step max_wafers s (LoopHead i running) =
     (if i < length (workers s) \<and> workers s ! i = AtLoopHead
      then Some (s\<lparr> workers := (workers s)
                    [i := (if running \<and> \<not> cap_reached max_wafers s then PastCheck else Exited)] \<rparr>)
      else None)"
| "worker_step max_wafers s (Produce i made) =
     (if i < length (workers s) \<and> workers s ! i = PastCheck
      then Some (s\<lparr> results := (if made then results s @ [i] else results s),
                    workers := (workers s)[i := AtLoopHead] \<rparr>)
      else None)"

fun run_schedule :: "int option \<Rightarrow> sim_state \<Rightarrow> event list \<Rightarrow> sim_state option" where
  "run_schedule max_wafers s [] = Some s"
| "run_schedule max_wafers s (ev # evs) =
     (case worker_step max_wafers s ev of
        None \<Rightarrow> None
      | Some s' \<Rightarrow> run_schedule max_wafers s' evs)"

text \<open>The state in which \<^verbatim>\<open>run_simulation\<close> starts \<open>n\<close> threads.\<close>

definition sim_start :: "nat \<Rightarrow> sim_state" where
  "sim_start n = \<lparr> results = [], workers = replicate n AtLoopHead \<rparr>"

section \<open>Notions used to state the properties\<close>

text \<open>
  A record as the data model has it: a dictionary whose \<^verbatim>\<open>defect_percentage\<close>, where present
  and not \<^verbatim>\<open>null\<close>, is a number; whose \<^verbatim>\<open>prediction\<close>, where present, is a dictionary with a
  numeric (or absent, or \<^verbatim>\<open>null\<close>) confidence and a hashable class.
\<close>

definition is_dict :: "json \<Rightarrow> bool" where
  "is_dict r = (case r of JObj d \<Rightarrow> True | _ \<Rightarrow> False)"










text \<open>
  pandas builds the frame of \<^verbatim>\<open>get_daily_statistics\<close> without raising: the constructor
  returns, and so does the conversion of the \<^verbatim>\<open>timestamp\<close> column when there is one.
\<close>

definition frame_builds :: "'df pandas \<Rightarrow> json list \<Rightarrow> bool" where
  "frame_builds pd rs =
     (case DataFrame pd rs of
        Inl e \<Rightarrow> False
      | Inr frame \<Rightarrow>
          (if has_column pd frame ''timestamp''
           then (case convert_timestamp pd frame of Inl e \<Rightarrow> False | Inr frame' \<Rightarrow> True)
           else True))"

text \<open>The \<^verbatim>\<open>wafer_id\<close> the next running call of \<^verbatim>\<open>process_wafer\<close> forms.\<close>

definition next_wafer_id :: "ManufacturingMachine \<Rightarrow> string" where
  "next_wafer_id m =
     machine_type m @ ''_'' @ machine_id m @ ''_W'' @ format_04d (wafer_counter m + 1)"



text \<open>The threads that have passed the check and not yet come back to the head of the loop.\<close>

definition in_flight :: "sim_state \<Rightarrow> nat" where
  "in_flight s = length (filter (\<lambda>pc. pc = PastCheck) (workers s))"

section \<open>Sample inputs\<close>

definition mk_wafer :: "string \<Rightarrow> string \<Rightarrow> rat \<Rightarrow> json" where
  "mk_wafer wid cls p =
     JObj [(''wafer_id'', JStr wid),
           (''machine_id'', JStr ''MECH_01''),
           (''machine_type'', JStr ''Mechanical''),
           (''simulation_date'', JStr ''2025-01-01''),
           (''prediction'', JObj [(''Defect Class'', JStr cls), (''Confidence Score'', JNum (9 / 10))]),
           (''defect_percentage'', JNum p),
           (''quality_status'', JStr (if p \<le> 40 then ''PASS'' else ''FAIL''))]"

definition sample_wafers :: "json list" where
  "sample_wafers =
     [mk_wafer ''W0001'' ''Scratch'' 55, mk_wafer ''W0002'' ''Donut'' 95,
      mk_wafer ''W0003'' ''Scratch'' 55, mk_wafer ''W0004'' ''Normal'' 10]"

text \<open>A record whose \<^verbatim>\<open>defect_percentage\<close> is \<^verbatim>\<open>null\<close>, and one that has no such key.\<close>

definition null_pct_wafer :: json where
  "null_pct_wafer =
     JObj [(''wafer_id'', JStr ''W0005''), (''simulation_date'', JStr ''2025-01-01''),
           (''defect_percentage'', JNull), (''quality_status'', JStr ''PASS'')]"

definition no_pct_wafer :: json where
  "no_pct_wafer =
     JObj [(''wafer_id'', JStr ''W0006''), (''simulation_date'', JStr ''2025-01-01''),
           (''quality_status'', JStr ''PASS'')]"



text \<open>
  A stand-in for pandas whose frame is the list of records itself and whose calls all
  succeed; a column exists when some record has the key.
\<close>

definition sample_pandas :: "(json list) pandas" where
  "sample_pandas =
     \<lparr> DataFrame = (\<lambda>rs. Inr rs),
       has_column = (\<lambda>frame c. list_ex (\<lambda>r. case r of JObj d \<Rightarrow> map_of d c \<noteq> None | _ \<Rightarrow> False) frame),
       convert_timestamp = (\<lambda>frame. Inr frame),
       set_column = (\<lambda>frame c vs. Inr frame) \<rparr>"

text \<open>
  A results directory: two snapshot files, an unreadable one and a file the pattern does not
  match.
\<close>

definition sample_dir :: "snapshot_file list" where
  "sample_dir =
     [\<lparr> file_name = ''results_20250101_090000.json'', st_mtime = 100,
         parsed = Some (JArr [mk_wafer ''W0001'' ''Scratch'' 55]) \<rparr>,
      \<lparr> file_name = ''results_20250102_090000.json'', st_mtime = 200,
         parsed = Some (JArr [mk_wafer ''W0002'' ''Donut'' 95, mk_wafer ''W0003'' ''Normal'' 10]) \<rparr>,
      \<lparr> file_name = ''results_20250103_090000.json'', st_mtime = 300, parsed = None \<rparr>,
      \<lparr> file_name = ''notes.json'', st_mtime = 400,
         parsed = Some (JArr [mk_wafer ''W0009'' ''Center'' 1]) \<rparr>]"

definition empty_aggregator :: "(json list) aggregator" where
  "empty_aggregator = \<lparr> agg_data = [], agg_df = None \<rparr>"

text \<open>A running machine, a world in which the copy succeeds and one in which it fails.\<close>

definition sample_generator :: WaferImageGenerator where
  "sample_generator =
     \<lparr> normal_images = [''Test/Normal/n1.jpg''], defect_images = [''Test/Scratch/s1.jpg''],
       output_dir = ''out'' \<rparr>"

definition world_ok :: world where
  "world_ok =
     \<lparr> random_random = 1 / 2, random_choice = hd, strftime_now = ''20250101_090000_000000'',
       isoformat_now = ''2025-01-01T09:00:00'', path_join = (\<lambda>a b. a @ ''/'' @ b),
       copy2_ok = (\<lambda>src dst. True) \<rparr>"

definition world_copy_fails :: world where
  "world_copy_fails = world_ok\<lparr> copy2_ok := (\<lambda>src dst. False) \<rparr>"

definition sample_machine :: ManufacturingMachine where
  "sample_machine =
     \<lparr> machine_id = ''MECH_01'', machine_type = ''Mechanical'',
       image_generator = sample_generator, is_running = True, processed_wafers = 0,
       wafer_counter = 0, min_interval = 5, max_interval = 8 \<rparr>"




text \<open>
  A schedule of three threads: each makes a wafer; then all three pass the check while the
  list holds three records, and each appends one more; then each finds the cap reached.
\<close>

definition overshoot_schedule :: "event list" where
  "overshoot_schedule =
     [LoopHead 0 True, LoopHead 1 True, LoopHead 2 True,
      Produce 0 True, Produce 1 True, Produce 2 True,
      LoopHead 0 True, LoopHead 1 True, LoopHead 2 True,
      Produce 0 True, Produce 1 True, Produce 2 True,
      LoopHead 0 True, LoopHead 1 True, LoopHead 2 True]"

section \<open>Properties of \<^verbatim>\<open>get_anomalies\<close>\<close>

lemma anomalies_loop_filter:
  "\<forall>r\<in>set rs. pct_key r \<noteq> None \<Longrightarrow>
   anomalies_loop acc t rs = Inr (acc @ filter (\<lambda>r. t < the (pct_key r)) rs)"
proof (induction rs arbitrary: acc)
  case Nil
  then show ?case by simp
next
  case (Cons r rs)
  from Cons.prems obtain x where x: "pct_key r = Some x" by auto
  then obtain v where v: "dict_get r ''defect_percentage'' (JNum 0) = Inr v" "num_of v = Some x"
    by (auto simp: pct_key_def split: sum.splits)
  from Cons.prems have "\<forall>r\<in>set rs. pct_key r \<noteq> None" by simp
  from Cons.IH [OF this] show ?case
    using v x by (simp add: py_gt_def)
qed

lemma sorted_desc_sort_key:
  "sorted_wrt (\<lambda>a b. f b \<le> (f a :: rat)) (sort_key (\<lambda>r. - f r) xs)"
proof -
  have "sorted (map (\<lambda>r. - f r) (sort_key (\<lambda>r. - f r) xs))" by (rule sorted_sort_key)
  then show ?thesis by (simp add: sorted_map)
qed

lemma get_pct_mk_wafer:
  "dict_get (mk_wafer wid cls p) ''defect_percentage'' dflt = Inr (JNum p)"
  by (simp add: dict_get_def mk_wafer_def)

lemma pct_key_mk_wafer: "pct_key (mk_wafer wid cls p) = Some p"
  by (simp add: pct_key_def get_pct_mk_wafer)

text \<open>
  C5. When every record's \<^verbatim>\<open>defect_percentage\<close> (read with the default 0) is a number,
  \<^verbatim>\<open>get_anomalies(t)\<close> returns normally, and its result holds exactly the loaded records whose
  percentage is strictly greater than \<open>t\<close> (as a multiset), in descending order of the
  percentage, records of equal percentage in their order in the loaded data; when no percentage
  exceeds \<open>t\<close> (data with maximum 95 against the threshold 100) the result is empty.
\<close>

theorem get_anomalies_filter_sorted_stable:
  assumes wf: "\<forall>r\<in>set rs. pct_key r \<noteq> None"
  shows "\<exists>res. get_anomalies rs t = Inr res
           \<and> mset res = mset (filter (\<lambda>r. t < the (pct_key r)) rs)
           \<and> sorted_wrt (\<lambda>a b. the (pct_key b) \<le> the (pct_key a)) res
           \<and> (\<forall>k. filter (\<lambda>r. the (pct_key r) = k) res
                    = filter (\<lambda>r. the (pct_key r) = k) (filter (\<lambda>r. t < the (pct_key r)) rs))
           \<and> ((\<forall>r\<in>set rs. the (pct_key r) \<le> t) \<longrightarrow> res = [])"
proof -
  let ?sel = "filter (\<lambda>r. t < the (pct_key r)) rs"
  let ?res = "sort_key (\<lambda>r. - the (pct_key r)) ?sel"
  have loop: "anomalies_loop [] t rs = Inr ?sel"
    using anomalies_loop_filter [OF wf, of "[]" t] by simp
  have ok: "list_all (\<lambda>r. pct_key r \<noteq> None) ?sel"
    using wf by (simp add: list_all_iff)
  have run: "get_anomalies rs t = Inr ?res"
  proof (cases "rs = []")
    case True
    then show ?thesis by (simp add: get_anomalies_def)
  next
    case False
    then show ?thesis using loop ok by (simp add: get_anomalies_def sort_pct_desc_def)
  qed
  have st: "\<And>k. filter (\<lambda>r. the (pct_key r) = k) ?res = filter (\<lambda>r. the (pct_key r) = k) ?sel"
  proof -
    fix k
    have "filter (\<lambda>r. - the (pct_key r) = - k) ?res = filter (\<lambda>r. - the (pct_key r) = - k) ?sel"
      by (rule sort_key_stable)
    then show "filter (\<lambda>r. the (pct_key r) = k) ?res = filter (\<lambda>r. the (pct_key r) = k) ?sel"
      by simp
  qed
  have none: "(\<forall>r\<in>set rs. the (pct_key r) \<le> t) \<longrightarrow> ?res = []"
  proof
    assume "\<forall>r\<in>set rs. the (pct_key r) \<le> t"
    then have "?sel = []" by (auto simp: filter_empty_conv)
    then show "?res = []" by simp
  qed
  show ?thesis
    using run st none sorted_desc_sort_key [of "\<lambda>r. the (pct_key r)" ?sel] by simp
qed

theorem get_anomalies_filter_sorted_stable_witness:
  "list_all (\<lambda>r. pct_key r \<noteq> None) sample_wafers
   \<and> list_all (\<lambda>r. the (pct_key r) \<le> 95) sample_wafers
   \<and> get_anomalies sample_wafers 100 = Inr []
   \<and> get_anomalies sample_wafers 50
       = Inr [mk_wafer ''W0002'' ''Donut'' 95, mk_wafer ''W0001'' ''Scratch'' 55,
              mk_wafer ''W0003'' ''Scratch'' 55]"
proof -
  have h: "\<forall>r\<in>set sample_wafers. pct_key r \<noteq> None"
    by (simp add: sample_wafers_def pct_key_mk_wafer)
  have m: "\<forall>r\<in>set sample_wafers. the (pct_key r) \<le> 95"
    by (simp add: sample_wafers_def pct_key_mk_wafer)
  from get_anomalies_filter_sorted_stable [OF h, of 100]
  obtain res where r: "get_anomalies sample_wafers 100 = Inr res"
    and e: "(\<forall>r\<in>set sample_wafers. the (pct_key r) \<le> 100) \<longrightarrow> res = []"
    by blast
  have "\<forall>r\<in>set sample_wafers. the (pct_key r) \<le> 100"
    by (simp add: sample_wafers_def pct_key_mk_wafer)
  with e r have a: "get_anomalies sample_wafers 100 = Inr []" by simp
  have b: "get_anomalies sample_wafers 50
       = Inr [mk_wafer ''W0002'' ''Donut'' 95, mk_wafer ''W0001'' ''Scratch'' 55,
              mk_wafer ''W0003'' ''Scratch'' 55]"
    by (simp add: get_anomalies_def sort_pct_desc_def sample_wafers_def pct_key_mk_wafer
          py_gt_def get_pct_mk_wafer)
  from h m a b show ?thesis by (simp add: list_all_iff)
qed

section \<open>Rounding, sums and comprehensions\<close>










section \<open>Properties of \<^verbatim>\<open>get_summary_statistics\<close>\<close>






section \<open>Insertion-ordered dictionaries\<close>





section \<open>Pass and fail counts\<close>
























section \<open>Properties of \<^verbatim>\<open>get_defect_distribution\<close>\<close>











section \<open>Records with a missing or null percentage\<close>

text \<open>
  C2. The claim does not hold of the code. A record whose \<^verbatim>\<open>defect_percentage\<close> is \<^verbatim>\<open>null\<close>
  makes \<^verbatim>\<open>get_anomalies\<close> and \<^verbatim>\<open>get_date_statistics\<close> raise \<^verbatim>\<open>TypeError\<close> (the comparison of
  \<^verbatim>\<open>None\<close> with the threshold), while \<^verbatim>\<open>get_summary_statistics\<close> and \<^verbatim>\<open>get_machine_statistics\<close>
  return normally on it and leave it out of the mean. A record without the key enters the mean
  of \<^verbatim>\<open>get_date_statistics\<close> as 0 (the mean of 50 and a missing value is 25), while
  \<^verbatim>\<open>get_summary_statistics\<close> leaves it out (the mean is 50).
\<close>

theorem null_percentage_raises:
  "get_anomalies [null_pct_wafer] 50 = Inl TypeError
   \<and> get_date_statistics [null_pct_wafer] = Inl TypeError
   \<and> get_summary_statistics [null_pct_wafer]
       = Inr (Stats \<lparr> total_wafers = 1, pass_count = 1, fail_count = 0, pass_rate = 100,
                       fail_rate = 0, average_defect_percentage = 0, average_confidence = 0 \<rparr>)
   \<and> get_machine_statistics (\<lambda>v. ''?'') [null_pct_wafer]
       = Inr [(''Unknown_Unknown'',
               \<lparr> ms_machine_id = ''Unknown_Unknown'', ms_total_wafers = 1, ms_pass_count = 1,
                 ms_fail_count = 0, ms_pass_rate = 100, ms_average_defect_percentage = 0,
                 ms_defect_class_distribution = [(JStr ''Unknown'', 1)] \<rparr>)]
   \<and> get_anomalies [no_pct_wafer] 50 = Inr []
   \<and> get_date_statistics [mk_wafer ''W0001'' ''Scratch'' 50, no_pct_wafer]
       = Inr [(JStr ''2025-01-01'',
               \<lparr> ds_total_wafers = 2, ds_pass_count = 1, ds_fail_count = 1, ds_pass_rate = 50,
                 ds_avg_defect_percentage = 25, ds_anomalies = 1 \<rparr>)]
   \<and> get_summary_statistics [mk_wafer ''W0001'' ''Scratch'' 50, no_pct_wafer]
       = Inr (Stats \<lparr> total_wafers = 2, pass_count = 1, fail_count = 1, pass_rate = 50,
                       fail_rate = 50, average_defect_percentage = 50,
                       average_confidence = 9 / 10 \<rparr>)"
proof (intro conjI)
  show "get_anomalies [null_pct_wafer] 50 = Inl TypeError"
    by (simp add: get_anomalies_def null_pct_wafer_def dict_get_def py_gt_def)
  show "get_date_statistics [null_pct_wafer] = Inl TypeError"
    by (simp add: get_date_statistics_def date_step_def null_pct_wafer_def dict_get_def
          is_pass_def py_gt_def)
  show "get_summary_statistics [null_pct_wafer]
       = Inr (Stats \<lparr> total_wafers = 1, pass_count = 1, fail_count = 0, pass_rate = 100,
                       fail_rate = 0, average_defect_percentage = 0, average_confidence = 0 \<rparr>)"
    by (simp add: get_summary_statistics_def null_pct_wafer_def is_pass_def pct_entry_def
          conf_entry_def prediction_get_def dict_get_def mean_or_zero_def py_round_def
          round_half_even_def Let_def)
  show "get_machine_statistics (\<lambda>v. ''?'') [null_pct_wafer]
       = Inr [(''Unknown_Unknown'',
               \<lparr> ms_machine_id = ''Unknown_Unknown'', ms_total_wafers = 1, ms_pass_count = 1,
                 ms_fail_count = 0, ms_pass_rate = 100, ms_average_defect_percentage = 0,
                 ms_defect_class_distribution = [(JStr ''Unknown'', 1)] \<rparr>)]"
    by (simp add: get_machine_statistics_def null_pct_wafer_def machine_step_def
          machine_key_def fmt_def is_pass_def prediction_get_def dict_get_def machine_acc0_def
          format_machine_def py_round_def round_half_even_def Let_def)
  show "get_anomalies [no_pct_wafer] 50 = Inr []"
    by (simp add: get_anomalies_def no_pct_wafer_def dict_get_def py_gt_def sort_pct_desc_def)
  show "get_date_statistics [mk_wafer ''W0001'' ''Scratch'' 50, no_pct_wafer]
       = Inr [(JStr ''2025-01-01'',
               \<lparr> ds_total_wafers = 2, ds_pass_count = 1, ds_fail_count = 1, ds_pass_rate = 50,
                 ds_avg_defect_percentage = 25, ds_anomalies = 1 \<rparr>)]"
    by (simp add: get_date_statistics_def date_step_def no_pct_wafer_def mk_wafer_def
          dict_get_def is_pass_def py_gt_def DEFECT_PERCENTAGE_THRESHOLD_def date_acc0_def
          format_date_def mean_or_zero_def py_sum_def py_round_def round_half_even_def Let_def)
  show "get_summary_statistics [mk_wafer ''W0001'' ''Scratch'' 50, no_pct_wafer]
       = Inr (Stats \<lparr> total_wafers = 2, pass_count = 1, fail_count = 1, pass_rate = 50,
                       fail_rate = 50, average_defect_percentage = 50,
                       average_confidence = 9 / 10 \<rparr>)"
    by (simp add: get_summary_statistics_def no_pct_wafer_def mk_wafer_def is_pass_def
          pct_entry_def conf_entry_def prediction_get_def dict_get_def mean_or_zero_def
          py_sum_def py_round_def round_half_even_def Let_def)
qed

section \<open>Properties of \<^verbatim>\<open>filter_by_simulation_date\<close> and \<^verbatim>\<open>get_daily_statistics\<close>\<close>

lemma kept_on_date:
  "\<forall>r\<in>set rs. is_dict r \<Longrightarrow>
   \<exists>ks. try_map (on_date d) rs = Inr ks
     \<and> kept ks = filter (\<lambda>r. dict_get r ''simulation_date'' JNull = Inr (JStr d)) rs"
proof (induction rs)
  case Nil
  then show ?case by simp
next
  case (Cons r rs)
  from Cons.prems have "\<forall>r\<in>set rs. is_dict r" by simp
  from Cons.IH [OF this] obtain ks where ks: "try_map (on_date d) rs = Inr ks"
    "kept ks = filter (\<lambda>r. dict_get r ''simulation_date'' JNull = Inr (JStr d)) rs"
    by blast
  from Cons.prems obtain dd where r: "r = JObj dd" by (cases r) (auto simp: is_dict_def)
  then obtain v where v: "dict_get r ''simulation_date'' JNull = Inr v"
    by (simp add: dict_get_def)
  from v have "on_date d r = Inr (if v = JStr d then Some r else None)"
    by (simp add: on_date_def)
  with ks v show ?case by simp
qed

lemma filter_by_simulation_date_dicts:
  assumes "\<forall>r\<in>set rs. is_dict r"
  shows "filter_by_simulation_date rs d
           = Inr (filter (\<lambda>r. dict_get r ''simulation_date'' JNull = Inr (JStr d)) rs)"
proof (cases "rs = []")
  case True
  then show ?thesis by (simp add: filter_by_simulation_date_def)
next
  case False
  from kept_on_date [OF assms, of d] obtain ks where "try_map (on_date d) rs = Inr ks"
    "kept ks = filter (\<lambda>r. dict_get r ''simulation_date'' JNull = Inr (JStr d)) rs"
    by blast
  with False show ?thesis by (simp add: filter_by_simulation_date_def)
qed

lemma get_daily_statistics_nonempty:
  assumes "filter_by_simulation_date rs d = Inr sub" and "sub \<noteq> []" and "frame_builds pd sub"
  shows "get_daily_statistics pd rs d = get_summary_statistics sub"
  using assms
  by (auto simp: get_daily_statistics_def frame_builds_def split: sum.splits if_splits)

lemma is_dict_mk_wafer: "is_dict (mk_wafer wid cls p)"
  by (simp add: is_dict_def mk_wafer_def)

lemma date_mk_wafer:
  "dict_get (mk_wafer wid cls p) ''simulation_date'' dflt = Inr (JStr ''2025-01-01'')"
  by (simp add: dict_get_def mk_wafer_def)

text \<open>
  C4, as stated, fails where the date matches no record: \<^verbatim>\<open>get_daily_statistics\<close> then
  returns the marker \<^verbatim>\<open>No data found for date ...\<close>, and \<^verbatim>\<open>get_summary_statistics\<close> over the
  (empty) filtered list returns the marker \<^verbatim>\<open>No data loaded\<close>.
\<close>

theorem daily_statistics_no_match_counterexample:
  "filter_by_simulation_date sample_wafers ''2024-12-31'' = Inr []
   \<and> get_daily_statistics sample_pandas sample_wafers ''2024-12-31''
       = Inr (ErrorMarker ''No data found for date 2024-12-31'')
   \<and> get_summary_statistics [] = Inr (ErrorMarker ''No data loaded'')
   \<and> get_daily_statistics sample_pandas sample_wafers ''2024-12-31'' \<noteq> get_summary_statistics []"
proof -
  have f: "filter_by_simulation_date sample_wafers ''2024-12-31'' = Inr []"
    by (simp add: filter_by_simulation_date_def sample_wafers_def on_date_def date_mk_wafer)
  then have d: "get_daily_statistics sample_pandas sample_wafers ''2024-12-31''
       = Inr (ErrorMarker ''No data found for date 2024-12-31'')"
    by (simp add: get_daily_statistics_def)
  have s: "get_summary_statistics [] = Inr (ErrorMarker ''No data loaded'')"
    by (simp add: get_summary_statistics_def)
  from f d s show ?thesis by simp
qed

text \<open>
  C4, amended. On a list of records (JSON objects) \<^verbatim>\<open>filter_by_simulation_date(d)\<close> returns,
  without raising, exactly the records whose \<^verbatim>\<open>simulation_date\<close> is the string \<open>d\<close>, in
  order (the empty list when none matches or no data is loaded). When at least one record
  matches and pandas builds the temporary frame, \<^verbatim>\<open>get_daily_statistics(d)\<close> is
  \<^verbatim>\<open>get_summary_statistics\<close> over the filtered records; when none matches it is the error
  marker naming the date.
\<close>

theorem daily_statistics_is_summary_of_filtered:
  "((\<forall>r\<in>set rs. is_dict r) \<longrightarrow>
      filter_by_simulation_date rs d
        = Inr (filter (\<lambda>r. dict_get r ''simulation_date'' JNull = Inr (JStr d)) rs))
   \<and> (filter_by_simulation_date rs d = Inr sub \<longrightarrow> sub \<noteq> [] \<longrightarrow> frame_builds pd sub \<longrightarrow>
        get_daily_statistics pd rs d = get_summary_statistics sub)
   \<and> (filter_by_simulation_date rs d = Inr [] \<longrightarrow>
        get_daily_statistics pd rs d = Inr (ErrorMarker (''No data found for date '' @ d)))"
proof (intro conjI impI)
  assume "\<forall>r\<in>set rs. is_dict r"
  then show "filter_by_simulation_date rs d
        = Inr (filter (\<lambda>r. dict_get r ''simulation_date'' JNull = Inr (JStr d)) rs)"
    by (rule filter_by_simulation_date_dicts)
next
  assume "filter_by_simulation_date rs d = Inr sub" "sub \<noteq> []" "frame_builds pd sub"
  then show "get_daily_statistics pd rs d = get_summary_statistics sub"
    by (rule get_daily_statistics_nonempty)
next
  assume "filter_by_simulation_date rs d = Inr []"
  then show "get_daily_statistics pd rs d = Inr (ErrorMarker (''No data found for date '' @ d))"
    by (simp add: get_daily_statistics_def)
qed

theorem daily_statistics_is_summary_of_filtered_witness:
  "list_all is_dict sample_wafers
   \<and> filter_by_simulation_date sample_wafers ''2025-01-01'' = Inr sample_wafers
   \<and> sample_wafers \<noteq> []
   \<and> frame_builds sample_pandas sample_wafers
   \<and> get_daily_statistics sample_pandas sample_wafers ''2025-01-01''
       = get_summary_statistics sample_wafers
   \<and> filter_by_simulation_date sample_wafers ''2024-12-31'' = Inr []
   \<and> get_daily_statistics sample_pandas sample_wafers ''2024-12-31''
       = Inr (ErrorMarker ''No data found for date 2024-12-31'')"
proof -
  note t = daily_statistics_is_summary_of_filtered
  have dicts: "\<forall>r\<in>set sample_wafers. is_dict r"
    by (simp add: sample_wafers_def is_dict_mk_wafer)
  have "filter (\<lambda>r. dict_get r ''simulation_date'' JNull = Inr (JStr ''2025-01-01'')) sample_wafers
          = sample_wafers"
    by (simp add: sample_wafers_def date_mk_wafer)
  with t [of sample_wafers "''2025-01-01''" sample_wafers sample_pandas] dicts
  have f: "filter_by_simulation_date sample_wafers ''2025-01-01'' = Inr sample_wafers" by simp
  have ne: "sample_wafers \<noteq> []" by (simp add: sample_wafers_def)
  have fb: "frame_builds sample_pandas sample_wafers"
    by (simp add: frame_builds_def sample_pandas_def)
  from t [of sample_wafers "''2025-01-01''" sample_wafers sample_pandas] f ne fb
  have g: "get_daily_statistics sample_pandas sample_wafers ''2025-01-01''
       = get_summary_statistics sample_wafers" by simp
  have "filter (\<lambda>r. dict_get r ''simulation_date'' JNull = Inr (JStr ''2024-12-31'')) sample_wafers
          = []"
    by (simp add: sample_wafers_def date_mk_wafer)
  with t [of sample_wafers "''2024-12-31''" sample_wafers sample_pandas] dicts
  have f2: "filter_by_simulation_date sample_wafers ''2024-12-31'' = Inr []" by simp
  with t [of sample_wafers "''2024-12-31''" sample_wafers sample_pandas]
  have g2: "get_daily_statistics sample_pandas sample_wafers ''2024-12-31''
       = Inr (ErrorMarker ''No data found for date 2024-12-31'')" by simp
  from dicts f ne fb g f2 g2 show ?thesis by (simp add: list_all_iff)
qed

section \<open>Properties of \<^verbatim>\<open>load_results\<close>\<close>

text \<open>
  C6. \<^verbatim>\<open>load_results\<close> is idempotent: over the same directory listing and the same explicit
  path, a second call returns the same result and leaves the aggregator as the first call
  left it, so every query gives the same answer after either. The loaded data do not depend
  on what the aggregator held before: they replace it.
\<close>

theorem load_results_idempotent:
  "load_results pd dir (fst (load_results pd dir s file_path)) file_path
     = load_results pd dir s file_path
   \<and> agg_data (fst (load_results pd dir s file_path))
       = agg_data (fst (load_results pd dir s' file_path))
   \<and> get_summary_statistics
         (agg_data (fst (load_results pd dir (fst (load_results pd dir s file_path)) file_path)))
       = get_summary_statistics (agg_data (fst (load_results pd dir s file_path)))"
proof -
  have a: "load_results pd dir (fst (load_results pd dir s file_path)) file_path
     = load_results pd dir s file_path"
    by (simp add: load_results_def Let_def split: sum.splits option.splits)
  have b: "agg_data (fst (load_results pd dir s file_path))
       = agg_data (fst (load_results pd dir s' file_path))"
    by (simp add: load_results_def Let_def split: sum.splits option.splits)
  from a b show ?thesis by simp
qed

theorem load_results_idempotent_witness:
  "agg_data (fst (load_results sample_pandas sample_dir empty_aggregator None))
     = [mk_wafer ''W0002'' ''Donut'' 95, mk_wafer ''W0003'' ''Normal'' 10,
        mk_wafer ''W0001'' ''Scratch'' 55]
   \<and> load_results sample_pandas sample_dir
        (fst (load_results sample_pandas sample_dir empty_aggregator None)) None
       = load_results sample_pandas sample_dir empty_aggregator None"
proof -
  have "agg_data (fst (load_results sample_pandas sample_dir empty_aggregator None))
     = [mk_wafer ''W0002'' ''Donut'' 95, mk_wafer ''W0003'' ''Normal'' 10,
        mk_wafer ''W0001'' ''Scratch'' 55]"
    by (simp add: load_results_def sample_dir_def glob_match_def Let_def
          split: sum.splits)
  with load_results_idempotent [of sample_pandas sample_dir empty_aggregator None]
  show ?thesis by simp
qed

section \<open>Properties of \<^verbatim>\<open>process_wafer\<close>\<close>

text \<open>
  C9. A machine that is not running returns \<open>None\<close> from \<^verbatim>\<open>process_wafer\<close> and stays as it
  was. A running machine whose image generation fails returns \<open>None\<close>, with \<^verbatim>\<open>wafer_counter\<close>
  one higher and \<^verbatim>\<open>processed_wafers\<close> unchanged. A running machine whose image generation
  succeeds returns a record with the \<^verbatim>\<open>wafer_id\<close> formed from the incremented counter, and
  both counters are one higher. So a failed attempt uses up a sequence number, and
  \<^verbatim>\<open>processed_wafers\<close> counts the records returned.
\<close>

theorem process_wafer_counters:
  "(\<not> is_running m \<longrightarrow> process_wafer w m = (None, m))
   \<and> (is_running m \<longrightarrow>
        generate_image (image_generator m) w (next_wafer_id m) (machine_type m) (7 / 10) = None \<longrightarrow>
        fst (process_wafer w m) = None
      \<and> wafer_counter (snd (process_wafer w m)) = wafer_counter m + 1
      \<and> processed_wafers (snd (process_wafer w m)) = processed_wafers m
      \<and> snd (process_wafer w m) = m\<lparr> wafer_counter := wafer_counter m + 1 \<rparr>)
   \<and> (is_running m \<longrightarrow>
        generate_image (image_generator m) w (next_wafer_id m) (machine_type m) (7 / 10) = Some p \<longrightarrow>
        (\<exists>info. fst (process_wafer w m) = Some info
           \<and> map_of info ''wafer_id'' = Some (JStr (next_wafer_id m))
           \<and> map_of info ''image_path'' = Some (JStr p))
      \<and> wafer_counter (snd (process_wafer w m)) = wafer_counter m + 1
      \<and> processed_wafers (snd (process_wafer w m)) = processed_wafers m + 1)"
  by (simp add: process_wafer_def next_wafer_id_def Let_def)

lemma digits_2: "digits 2 = ''2''"
  by (simp add: digits.simps)

theorem process_wafer_counters_witness:
  "is_running sample_machine
   \<and> process_wafer world_ok (sample_machine\<lparr> is_running := False \<rparr>)
       = (None, sample_machine\<lparr> is_running := False \<rparr>)
   \<and> generate_image (image_generator sample_machine) world_copy_fails
        (next_wafer_id sample_machine) (machine_type sample_machine) (7 / 10) = None
   \<and> process_wafer world_copy_fails sample_machine
       = (None, sample_machine\<lparr> wafer_counter := 1 \<rparr>)
   \<and> next_wafer_id (sample_machine\<lparr> wafer_counter := 1 \<rparr>) = ''Mechanical_MECH_01_W0002''
   \<and> (\<exists>info. fst (process_wafer world_ok (sample_machine\<lparr> wafer_counter := 1 \<rparr>)) = Some info
         \<and> map_of info ''wafer_id'' = Some (JStr ''Mechanical_MECH_01_W0002''))
   \<and> wafer_counter (snd (process_wafer world_ok (sample_machine\<lparr> wafer_counter := 1 \<rparr>))) = 2
   \<and> processed_wafers (snd (process_wafer world_ok (sample_machine\<lparr> wafer_counter := 1 \<rparr>))) = 1"
proof -
  let ?m1 = "sample_machine\<lparr> wafer_counter := 1 \<rparr>"
  let ?off = "sample_machine\<lparr> is_running := False \<rparr>"
  have r: "is_running sample_machine" by (simp add: sample_machine_def)
  have r1: "is_running ?m1" by (simp add: sample_machine_def)
  have off: "\<not> is_running ?off" by simp
  from process_wafer_counters [of ?off world_ok] off
  have a: "process_wafer world_ok ?off = (None, ?off)" by simp
  have g: "generate_image (image_generator sample_machine) world_copy_fails
        (next_wafer_id sample_machine) (machine_type sample_machine) (7 / 10) = None"
    by (simp add: generate_image_def sample_machine_def sample_generator_def
          world_copy_fails_def world_ok_def Let_def)
  from process_wafer_counters [of sample_machine world_copy_fails] r g
  have b: "fst (process_wafer world_copy_fails sample_machine) = None"
    "snd (process_wafer world_copy_fails sample_machine)
       = sample_machine\<lparr> wafer_counter := wafer_counter sample_machine + 1 \<rparr>"
    by simp_all
  have "wafer_counter sample_machine = 0" by (simp add: sample_machine_def)
  with b have b': "process_wafer world_copy_fails sample_machine = (None, ?m1)"
    by (simp add: prod_eq_iff)
  have n: "next_wafer_id ?m1 = ''Mechanical_MECH_01_W0002''"
    by (simp add: next_wafer_id_def sample_machine_def format_04d_def zfill_def digits_2
          numeral_3_eq_3)
  have g2: "generate_image (image_generator ?m1) world_ok (next_wafer_id ?m1)
              (machine_type ?m1) (7 / 10)
            = Some (''out/Mechanical_Mechanical_MECH_01_W0002_20250101_090000_000000.jpg'')"
    by (simp add: n) (simp add: generate_image_def sample_machine_def sample_generator_def
          world_ok_def Let_def)
  from process_wafer_counters [of ?m1 world_ok
      "''out/Mechanical_Mechanical_MECH_01_W0002_20250101_090000_000000.jpg''"] r1 g2
  have c: "\<exists>info. fst (process_wafer world_ok ?m1) = Some info
           \<and> map_of info ''wafer_id'' = Some (JStr (next_wafer_id ?m1))"
    "wafer_counter (snd (process_wafer world_ok ?m1)) = wafer_counter ?m1 + 1"
    "processed_wafers (snd (process_wafer world_ok ?m1)) = processed_wafers ?m1 + 1"
    by auto
  have p0: "processed_wafers ?m1 = 0" by (simp add: sample_machine_def)
  from r a g b' n c p0 show ?thesis by simp
qed

section \<open>Properties of \<^verbatim>\<open>process_wafer_with_analysis\<close>\<close>









section \<open>Properties of the worker threads\<close>

lemma count_list_update:
  "i < length xs \<Longrightarrow>
   length (filter P (xs[i := v])) + (if P (xs ! i) then 1 else 0)
     = length (filter P xs) + (if P v then 1 else 0)"
proof (induction xs arbitrary: i)
  case Nil
  then show ?case by simp
next
  case (Cons x xs)
  show ?case
  proof (cases i)
    case 0
    then show ?thesis by simp
  next
    case (Suc j)
    with Cons.prems have "j < length xs" by simp
    from Cons.IH [OF this] Suc show ?thesis by simp
  qed
qed

lemma in_flight_enter:
  assumes "i < length (workers s)" and "workers s ! i = AtLoopHead"
  shows "in_flight (s\<lparr> workers := (workers s)[i := PastCheck] \<rparr>) = in_flight s + 1"
  using count_list_update [OF assms(1), of "\<lambda>pc. pc = PastCheck" PastCheck] assms(2)
  by (simp add: in_flight_def)

lemma in_flight_exit:
  assumes "i < length (workers s)" and "workers s ! i = AtLoopHead"
  shows "in_flight (s\<lparr> workers := (workers s)[i := Exited] \<rparr>) = in_flight s"
  using count_list_update [OF assms(1), of "\<lambda>pc. pc = PastCheck" Exited] assms(2)
  by (simp add: in_flight_def)

lemma in_flight_leave:
  assumes "i < length (workers s)" and "workers s ! i = PastCheck"
  shows "in_flight (s\<lparr> results := rs, workers := (workers s)[i := AtLoopHead] \<rparr>) + 1 = in_flight s"
  using count_list_update [OF assms(1), of "\<lambda>pc. pc = PastCheck" AtLoopHead] assms(2)
  by (simp add: in_flight_def)

lemma in_flight_le: "in_flight s \<le> length (workers s)"
  by (simp add: in_flight_def)

lemma worker_step_bound:
  assumes step: "worker_step (Some n) s ev = Some s'" and n: "0 < n"
    and inv: "int (length (results s)) + int (in_flight s) \<le> n + int (length (workers s)) - 1"
  shows "length (workers s') = length (workers s)
       \<and> int (length (results s')) + int (in_flight s') \<le> n + int (length (workers s')) - 1"
proof (cases ev)
  case (LoopHead i running)
  with step have i: "i < length (workers s)" "workers s ! i = AtLoopHead"
    by (auto split: if_splits)
  show ?thesis
  proof (cases "running \<and> \<not> cap_reached (Some n) s")
    case True
    with step LoopHead i have s': "s' = s\<lparr> workers := (workers s)[i := PastCheck] \<rparr>" by simp
    from True n have r: "int (length (results s)) \<le> n - 1" by (simp add: cap_reached_def)
    have "in_flight s' = in_flight s + 1" unfolding s' by (rule in_flight_enter [OF i])
    moreover have "in_flight s' \<le> length (workers s')" by (rule in_flight_le)
    moreover have "length (workers s') = length (workers s)" by (simp add: s')
    moreover have "results s' = results s" by (simp add: s')
    ultimately show ?thesis using r by simp
  next
    case False
    with step LoopHead i have s': "s' = s\<lparr> workers := (workers s)[i := Exited] \<rparr>" by auto
    have "in_flight s' = in_flight s" unfolding s' by (rule in_flight_exit [OF i])
    moreover have "length (workers s') = length (workers s)" by (simp add: s')
    moreover have "results s' = results s" by (simp add: s')
    ultimately show ?thesis using inv by simp
  qed
next
  case (Produce i made)
  with step have i: "i < length (workers s)" "workers s ! i = PastCheck"
    by (auto split: if_splits)
  with step Produce have s': "s' = s\<lparr> results := (if made then results s @ [i] else results s),
                    workers := (workers s)[i := AtLoopHead] \<rparr>" by simp
  have "in_flight s' + 1 = in_flight s" unfolding s' by (rule in_flight_leave [OF i])
  moreover have "length (workers s') = length (workers s)" by (simp add: s')
  moreover have "length (results s') \<le> length (results s) + 1" by (simp add: s')
  ultimately show ?thesis using inv by simp
qed

lemma run_schedule_bound_from:
  assumes "run_schedule (Some n) s evs = Some s'" and "0 < n"
    and "int (length (results s)) + int (in_flight s) \<le> n + int (length (workers s)) - 1"
  shows "length (workers s') = length (workers s)
       \<and> int (length (results s')) + int (in_flight s') \<le> n + int (length (workers s')) - 1"
  using assms
proof (induction evs arbitrary: s)
  case Nil
  then show ?case by simp
next
  case (Cons ev evs)
  from Cons.prems(1) obtain s1 where s1: "worker_step (Some n) s ev = Some s1"
    and rest: "run_schedule (Some n) s1 evs = Some s'"
    by (auto split: option.splits)
  from worker_step_bound [OF s1 Cons.prems(2) Cons.prems(3)]
  have w: "length (workers s1) = length (workers s)"
    and b: "int (length (results s1)) + int (in_flight s1) \<le> n + int (length (workers s1)) - 1"
    by simp_all
  from Cons.IH [OF rest Cons.prems(2) b] w show ?case by simp
qed

lemma max_wafers_bound:
  assumes "run_schedule (Some n) (sim_start k) evs = Some s" and "0 < n" and "0 < k"
  shows "int (length (results s)) \<le> n + int k - 1"
proof -
  have "int (length (results (sim_start k))) + int (in_flight (sim_start k))
          \<le> n + int (length (workers (sim_start k))) - 1"
    using assms(2,3) by (simp add: sim_start_def in_flight_def)
  from run_schedule_bound_from [OF assms(1,2) this]
  show ?thesis by (simp add: sim_start_def)
qed

text \<open>
  C8. The claim does not hold of the code. A thread checks \<^verbatim>\<open>len(self.results) >= max_wafers\<close>
  holding the lock, releases the lock, and appends later, so threads that all made the check
  before any of them appended each add a record. With three machines and
  \<^verbatim>\<open>max_wafers = 5\<close> the schedule below ends, every thread having left its loop, with six
  records.
\<close>

theorem max_wafers_overshoot:
  "run_schedule (Some 5) (sim_start 3) overshoot_schedule
     = Some \<lparr> results = [0, 1, 2, 0, 1, 2], workers = [Exited, Exited, Exited] \<rparr>"
  by (simp add: overshoot_schedule_def sim_start_def cap_reached_def numeral_3_eq_3)

end
